theory Spec2Isabelle
  imports Complex_Main "HOL-Library.Sublist"
begin

section \<open>JavaScript values as the program meets them\<close>

text \<open>
  The reasoning reply and the alert feed reach the program through \<^verbatim>\<open>JSON.parse\<close>, so
  their values are JSON values. An object is the list of its own properties, read with
  \<open>map_of\<close>. A number is carried by the decimal text JavaScript prints for it
  (\<^verbatim>\<open>String(4)\<close> is \<^verbatim>\<open>"4"\<close>; both zeros print \<^verbatim>\<open>"0"\<close>), which is all the program
  ever observes of a number in these values: whether it is zero, and its text as a reason
  or as a property key. \<^verbatim>\<open>undefined\<close> is \<open>None\<close> of \<open>json option\<close>.
  Strings are byte strings; case folding is modelled on ASCII letters.
\<close>

datatype json =
    JNull
  | JBool bool
  | JNum string
  | JStr string
  | JArr "json list"
  | JObj "(string \<times> json) list"

datatype error = TypeError

text \<open>Truthiness: \<^verbatim>\<open>null\<close>, \<^verbatim>\<open>false\<close>, zero, \<^verbatim>\<open>NaN\<close> and the empty string are falsy.\<close>

fun js_truthy :: "json \<Rightarrow> bool" where
  "js_truthy JNull = False"
| "js_truthy (JBool b) = b"
| "js_truthy (JNum t) = (t \<noteq> ''0'' \<and> t \<noteq> ''NaN'')"
| "js_truthy (JStr s) = (s \<noteq> [])"
| "js_truthy (JArr xs) = True"
| "js_truthy (JObj kvs) = True"

fun truthy :: "json option \<Rightarrow> bool" where
  "truthy None = False"
| "truthy (Some v) = js_truthy v"

text \<open>\<^verbatim>\<open>a || b\<close>: the left operand when it is truthy, else the right one.\<close>

definition js_or :: "json option \<Rightarrow> json option \<Rightarrow> json option" where
  "js_or a b = (if truthy a then a else b)"

text \<open>
  Reading a named property \<^verbatim>\<open>v.k\<close> of a non-null value, for the names this program
  reads (none of them is a member of a built-in prototype): an object gives its own
  property, every other value gives \<^verbatim>\<open>undefined\<close>.
\<close>

fun get_prop :: "json \<Rightarrow> string \<Rightarrow> json option" where
  "get_prop (JObj kvs) k = map_of kvs k"
| "get_prop v k = None"

text \<open>
  \<^verbatim>\<open>String(v)\<close>, also the conversion of a value used as a property key. An object that
  carries an own property \<^verbatim>\<open>toString\<close> (never callable in JSON data) cannot be converted:
  JavaScript throws a TypeError. An array joins its elements with commas, \<^verbatim>\<open>null\<close>
  elements printing as the empty string.
\<close>

fun js_String :: "json \<Rightarrow> error + string"
  and js_join :: "json list \<Rightarrow> error + string" where
  "js_String JNull = Inr ''null''"
| "js_String (JBool b) = Inr (if b then ''true'' else ''false'')"
| "js_String (JNum t) = Inr t"
| "js_String (JStr s) = Inr s"
| "js_String (JArr xs) = js_join xs"
| "js_String (JObj kvs) =
     (if ''toString'' \<in> set (map fst kvs) then Inl TypeError else Inr ''[object Object]'')"
| "js_join [] = Inr []"
| "js_join (x # xs) =
     (case (if x = JNull then Inr [] else js_String x) of
        Inl e \<Rightarrow> Inl e
      | Inr s \<Rightarrow>
          (if xs = [] then Inr s
           else (case js_join xs of Inl e \<Rightarrow> Inl e | Inr r \<Rightarrow> Inr (s @ '','' @ r))))"

section \<open>The recommendation schema enforcer\<close>

record recommendation =
  verdict :: string
  reasons :: "string list"
  return_risk :: string
  best_route_advice :: "string option"
  summary :: string

definition allowedVerdicts :: "string list" where
  "allowedVerdicts = [''Go for it'', ''Go if you have to'', ''Wait it out'', ''Stay in tonight'']"

definition allowedRisks :: "string list" where
  "allowedRisks = [''low'', ''medium'', ''high'', ''unknown'']"

text \<open>
  \<^verbatim>\<open>normalizeRecommendation\<close>, field by field in the order of the source. The verdict:
  the canonical field when truthy, else the first truthy one of \<^verbatim>\<open>recommendation\<close>,
  \<^verbatim>\<open>not_tonight\<close>, \<^verbatim>\<open>wait_it_out\<close>, else the literal; a boolean found there becomes one of
  the two extreme verdicts; anything that is not one of the four allowed strings becomes
  \<^verbatim>\<open>'Wait it out'\<close>.
\<close>

definition normalizeVerdict :: "json \<Rightarrow> string" where
  "normalizeVerdict parsed =
     (let v0 = get_prop parsed ''verdict'';
          v1 = (if \<not> truthy v0 then
                  (let a = js_or (js_or (js_or (get_prop parsed ''recommendation'')
                                               (get_prop parsed ''not_tonight''))
                                        (get_prop parsed ''wait_it_out''))
                                 (Some (JStr ''Wait it out''))
                   in (case a of
                         Some (JBool b) \<Rightarrow> Some (JStr (if b then ''Go for it'' else ''Wait it out''))
                       | _ \<Rightarrow> a))
                else v0)
      in (case v1 of
            Some (JStr s) \<Rightarrow> (if s \<in> set allowedVerdicts then s else ''Wait it out'')
          | _ \<Rightarrow> ''Wait it out''))"

text \<open>
  The reasons, before their coercion to strings: the canonical array, else the first truthy
  alias when it is an array, else the empty array; cut to three; \<^emph>\<open>one\<close> filler pushed when
  fewer than two remain.
\<close>

definition fillerReason :: string where
  "fillerReason = ''Unable to fully assess conditions''"

definition normalizeReasons :: "json \<Rightarrow> json list" where
  "normalizeReasons parsed =
     (let r0 = (case get_prop parsed ''reasons'' of
                  Some (JArr xs) \<Rightarrow> xs
                | _ \<Rightarrow>
                   (case js_or (js_or (js_or (get_prop parsed ''key_factors'')
                                             (get_prop parsed ''risk_factors''))
                                      (get_prop parsed ''factors''))
                               (Some (JArr [])) of
                      Some (JArr xs) \<Rightarrow> xs
                    | _ \<Rightarrow> []));
          r1 = (if length r0 > 3 then take 3 r0 else r0)
      in (if length r1 < 2 then r1 @ [JStr fillerReason] else r1))"

definition normalizeReturnRisk :: "json \<Rightarrow> string" where
  "normalizeReturnRisk parsed =
     (let r0 = get_prop parsed ''return_risk'';
          r1 = (if \<not> truthy r0 then
                  js_or (js_or (get_prop parsed ''risk_level'') (get_prop parsed ''travel_risk''))
                        (Some (JStr ''unknown''))
                else r0)
      in (case r1 of
            Some (JStr s) \<Rightarrow> (if s \<in> set allowedRisks then s else ''unknown'')
          | _ \<Rightarrow> ''unknown''))"

definition normalizeBestRouteAdvice :: "json \<Rightarrow> string option" where
  "normalizeBestRouteAdvice parsed =
     (let b0 = get_prop parsed ''best_route_advice'';
          b1 = (if \<not> truthy b0 then
                  js_or (js_or (get_prop parsed ''transit_advice'') (get_prop parsed ''route_advice''))
                        (Some JNull)
                else b0)
      in (case b1 of
            Some (JStr s) \<Rightarrow> Some s
          | _ \<Rightarrow> None))"

definition fallbackSummary :: string where
  "fallbackSummary = ''Unable to provide summary''"

definition normalizeSummary :: "json \<Rightarrow> string" where
  "normalizeSummary parsed =
     (let s0 = get_prop parsed ''summary'';
          s1 = (if \<not> truthy s0 then
                  js_or (js_or (js_or (get_prop parsed ''reasoning'')
                                      (get_prop parsed ''transit_advice''))
                               (get_prop parsed ''explanation''))
                        (Some (JStr fallbackSummary))
                else s0)
      in (case s1 of Some (JStr s) \<Rightarrow> s | _ \<Rightarrow> fallbackSummary))"

text \<open>
  The closing \<^verbatim>\<open>reasons.map\<close>: a string stays, anything else goes through \<^verbatim>\<open>String\<close>,
  whose TypeError ends the whole call.
\<close>

fun coerceReasons :: "json list \<Rightarrow> error + string list" where
  "coerceReasons [] = Inr []"
| "coerceReasons (r # rs) =
     (case (case r of JStr s \<Rightarrow> Inr s | _ \<Rightarrow> js_String r) of
        Inl e \<Rightarrow> Inl e
      | Inr s \<Rightarrow> (case coerceReasons rs of Inl e \<Rightarrow> Inl e | Inr ss \<Rightarrow> Inr (s # ss)))"

text \<open>
  Reading a property of \<^verbatim>\<open>null\<close> throws, so \<^verbatim>\<open>normalizeRecommendation(null)\<close> is a
  TypeError. (\<^verbatim>\<open>JSON.parse\<close> never yields \<^verbatim>\<open>undefined\<close>.)
\<close>

definition normalizeRecommendation :: "json \<Rightarrow> error + recommendation" where
  "normalizeRecommendation parsed =
     (if parsed = JNull then Inl TypeError
      else (case coerceReasons (normalizeReasons parsed) of
              Inl e \<Rightarrow> Inl e
            | Inr rs \<Rightarrow>
                Inr \<lparr> verdict = normalizeVerdict parsed,
                      reasons = rs,
                      return_risk = normalizeReturnRisk parsed,
                      best_route_advice = normalizeBestRouteAdvice parsed,
                      summary = normalizeSummary parsed \<rparr>))"

text \<open>The em dash of the source's string literals, as its three UTF-8 bytes.\<close>

definition emdash :: string where
  "emdash = [CHR 0xE2, CHR 0x80, CHR 0x94]"

definition getDefaultRecommendation :: recommendation where
  "getDefaultRecommendation =
     \<lparr> verdict = ''Wait it out'',
       reasons = [''Unable to assess conditions '' @ emdash @ '' consider waiting''],
       return_risk = ''high'',
       best_route_advice = Some ''Stay home or postpone your trip until conditions improve.'',
       summary = ''Travel is not recommended at this time.'' \<rparr>"

text \<open>
  What \<^verbatim>\<open>getRecommendation\<close> resolves to, by the outcome of its request: the fetch
  rejects, the status is not OK, the reply holds no parsable JSON, or \<^verbatim>\<open>extractJson\<close>
  returns a value. Every failure, a throwing \<^verbatim>\<open>normalizeRecommendation\<close> included, is
  caught and answered by the default.
\<close>

datatype 'a reply = Unreachable | NotOk | Malformed | Body 'a

definition getRecommendation :: "json reply \<Rightarrow> recommendation" where
  "getRecommendation r =
     (case r of
        Body parsed \<Rightarrow>
          (case normalizeRecommendation parsed of
             Inl e \<Rightarrow> getDefaultRecommendation
           | Inr n \<Rightarrow> n)
      | _ \<Rightarrow> getDefaultRecommendation)"

section \<open>Object literals used as lookup tables\<close>

text \<open>
  The source keeps its tables (\<^verbatim>\<open>effectMap\<close>, \<^verbatim>\<open>multipliers\<close>, the per-line status) in
  plain objects and reads them with \<^verbatim>\<open>table[key]\<close>. Such a read finds the own properties
  and, under their names, the members every plain object inherits from
  \<^verbatim>\<open>Object.prototype\<close>; all of these members are truthy.
\<close>

definition object_prototype_keys :: "string list" where
  "object_prototype_keys =
     [''constructor'', ''__defineGetter__'', ''__defineSetter__'', ''hasOwnProperty'',
      ''__lookupGetter__'', ''__lookupSetter__'', ''isPrototypeOf'', ''propertyIsEnumerable'',
      ''toString'', ''valueOf'', ''__proto__'', ''toLocaleString'']"

datatype 'a looked_up = Own 'a | Inherited string | Absent

definition table_get :: "(string \<times> 'a) list \<Rightarrow> string \<Rightarrow> 'a looked_up" where
  "table_get tbl k =
     (case map_of tbl k of
        Some v \<Rightarrow> Own v
      | None \<Rightarrow> (if k \<in> set object_prototype_keys then Inherited k else Absent))"

section \<open>The alert normalizer\<close>

text \<open>
  Optional chaining: \<^verbatim>\<open>x?.k\<close> and \<^verbatim>\<open>x?.[0]\<close> give \<^verbatim>\<open>undefined\<close> when \<^verbatim>\<open>x\<close> is
  \<^verbatim>\<open>null\<close> or \<^verbatim>\<open>undefined\<close>. Index 0 of an array is its first element, of a string its
  first character, of an object its property \<^verbatim>\<open>"0"\<close>.
\<close>

fun opt_prop :: "json option \<Rightarrow> string \<Rightarrow> json option" where
  "opt_prop None k = None"
| "opt_prop (Some JNull) k = None"
| "opt_prop (Some v) k = get_prop v k"

fun opt_index0 :: "json option \<Rightarrow> json option" where
  "opt_index0 (Some (JArr xs)) = (case xs of [] \<Rightarrow> None | x # _ \<Rightarrow> Some x)"
| "opt_index0 (Some (JStr s)) = (case s of [] \<Rightarrow> None | c # _ \<Rightarrow> Some (JStr [c]))"
| "opt_index0 (Some (JObj kvs)) = map_of kvs ''0''"
| "opt_index0 v = None"

text \<open>
  \<^verbatim>\<open>pickAlertText\<close>: a string alert is its own text; else the first truthy shape of the
  header, else of the description, else \<^verbatim>\<open>null\<close> (here \<open>None\<close>).
\<close>

definition pickAlertText :: "json \<Rightarrow> json option" where
  "pickAlertText alert =
     (case alert of
        JStr s \<Rightarrow> Some (JStr s)
      | _ \<Rightarrow>
        (let header =
               js_or (js_or (opt_prop (opt_index0 (opt_prop (opt_prop (Some alert) ''header_text'')
                                                             ''translation'')) ''text'')
                            (opt_prop (opt_index0 (opt_prop (Some alert) ''header_text'')) ''text''))
                     (opt_prop (opt_prop (Some alert) ''header_text'') ''text'');
             desc =
               js_or (js_or (opt_prop (opt_index0 (opt_prop (opt_prop (Some alert) ''description_text'')
                                                             ''translation'')) ''text'')
                            (opt_prop (opt_index0 (opt_prop (Some alert) ''description_text'')) ''text''))
                     (opt_prop (opt_prop (Some alert) ''description_text'') ''text'')
         in (if truthy header then header else if truthy desc then desc else None)))"

text \<open>\<^verbatim>\<open>pickRoutes\<close>: the truthy \<^verbatim>\<open>route_id\<close>s of the informed entities, in order.\<close>

definition pickRoutes :: "json \<Rightarrow> json list" where
  "pickRoutes alert =
     (case opt_prop (Some alert) ''informed_entity'' of
        Some (JArr ents) \<Rightarrow>
          concat (map (\<lambda>ent. (case opt_prop (Some ent) ''route_id'' of
                                  Some r \<Rightarrow> (if js_truthy r then [r] else [])
                                | None \<Rightarrow> [])) ents)
      | _ \<Rightarrow> [])"

text \<open>
  \<^verbatim>\<open>mapSeverity\<close>. The effect is used as a key of the object \<^verbatim>\<open>effectMap\<close>: its conversion
  to a key can throw, and a name inherited from \<^verbatim>\<open>Object.prototype\<close> finds that member,
  which is truthy and is returned in place of a severity string.
\<close>

datatype sev = Sev string | SevInherited string

definition effectMap :: "(string \<times> string) list" where
  "effectMap =
     [(''NO_SERVICE'', ''extreme''),
      (''REDUCED_SERVICE'', ''high''),
      (''SIGNIFICANT_DELAYS'', ''high''),
      (''DETOUR'', ''moderate''),
      (''OTHER_EFFECT'', ''moderate''),
      (''UNKNOWN_EFFECT'', ''moderate''),
      (''STOP_MOVED'', ''low'')]"

definition mapSeverity :: "json \<Rightarrow> error + sev" where
  "mapSeverity alert =
     (case opt_prop (Some alert) ''effect'' of
        None \<Rightarrow> Inr (Sev ''none'')
      | Some effect \<Rightarrow>
          (if \<not> js_truthy effect then Inr (Sev ''none'')
           else (case js_String effect of
                   Inl e \<Rightarrow> Inl e
                 | Inr k \<Rightarrow>
                     (case table_get effectMap k of
                        Own s \<Rightarrow> Inr (Sev s)
                      | Inherited n \<Rightarrow> Inr (SevInherited n)
                      | Absent \<Rightarrow> Inr (Sev ''moderate'')))))"

record line_status =
  status :: string
  message :: "json option"

definition commonLines :: "string list" where
  "commonLines =
     [''A'', ''C'', ''E'', ''B'', ''D'', ''F'', ''M'', ''N'', ''Q'', ''R'', ''W'',
      ''1'', ''2'', ''3'', ''4'', ''5'', ''6'', ''7'', ''G'', ''J'', ''L'', ''S'']"

text \<open>
  The object \<^verbatim>\<open>subwayStatus\<close>: its own properties, and the status object that an
  assignment to \<^verbatim>\<open>__proto__\<close> has made its prototype, if any (through it the names
  \<^verbatim>\<open>status\<close> and \<^verbatim>\<open>message\<close> are inherited).
\<close>

record subway_object =
  own :: "string \<rightharpoonup> line_status"
  proto :: "line_status option"

definition initSubwayStatus :: subway_object where
  "initSubwayStatus =
     \<lparr> own = map_of (map (\<lambda>line. (line, \<lparr> status = ''normal'', message = None \<rparr>)) commonLines),
       proto = None \<rparr>"

text \<open>\<^verbatim>\<open>if (subwayStatus[routeId])\<close> and \<^verbatim>\<open>subwayStatus[routeId] = ...\<close>, by key.\<close>

definition has_truthy :: "subway_object \<Rightarrow> string \<Rightarrow> bool" where
  "has_truthy obj k =
     (own obj k \<noteq> None \<or> k \<in> set object_prototype_keys \<or>
      (case proto obj of
         None \<Rightarrow> False
       | Some p \<Rightarrow> k = ''status'' \<or> (k = ''message'' \<and> truthy (message p))))"

definition assign :: "subway_object \<Rightarrow> string \<Rightarrow> line_status \<Rightarrow> subway_object" where
  "assign obj k v =
     (if k = ''__proto__'' then obj\<lparr> proto := Some v \<rparr>
      else obj\<lparr> own := (own obj)(k \<mapsto> v) \<rparr>)"

text \<open>The inner loop of \<^verbatim>\<open>processMtaJson\<close> over the affected routes of one alert.\<close>

fun apply_routes :: "json option \<Rightarrow> json list \<Rightarrow> subway_object \<Rightarrow> error + subway_object" where
  "apply_routes msg [] obj = Inr obj"
| "apply_routes msg (routeId # rest) obj =
     (case js_String routeId of
        Inl e \<Rightarrow> Inl e
      | Inr k \<Rightarrow>
          apply_routes msg rest
            (if has_truthy obj k
             then assign obj k \<lparr> status = (if truthy msg then ''delays'' else ''normal''),
                                 message = msg \<rparr>
             else obj))"

text \<open>
  One turn of the outer loop: skip an entity without a truthy alert, skip an alert that
  touches none of the requested routes (\<^verbatim>\<open>includes\<close> finds only an equal string in the
  list of strings \<^verbatim>\<open>routeIds\<close>), overwrite \<^verbatim>\<open>maxSeverity\<close> with any severity other than
  \<^verbatim>\<open>"none"\<close>, then write the message to the affected routes.
\<close>

definition hasRequested :: "string list \<Rightarrow> json list \<Rightarrow> bool" where
  "hasRequested routeIds affectedRoutes =
     list_ex (\<lambda>r. (case r of JStr s \<Rightarrow> s \<in> set routeIds | _ \<Rightarrow> False)) affectedRoutes"

definition process_entity ::
  "string list \<Rightarrow> json \<Rightarrow> subway_object \<times> sev \<Rightarrow> error + (subway_object \<times> sev)" where
  "process_entity routeIds entity acc =
     (case opt_prop (Some entity) ''alert'' of
        None \<Rightarrow> Inr acc
      | Some alert \<Rightarrow>
          (if \<not> js_truthy alert then Inr acc
           else (let affectedRoutes = pickRoutes alert in
             if routeIds \<noteq> [] \<and> \<not> hasRequested routeIds affectedRoutes then Inr acc
             else (case mapSeverity alert of
                     Inl e \<Rightarrow> Inl e
                   | Inr severity \<Rightarrow>
                       (let maxSeverity = (if severity \<noteq> Sev ''none'' then severity else snd acc)
                        in (case apply_routes (pickAlertText alert) affectedRoutes (fst acc) of
                              Inl e \<Rightarrow> Inl e
                            | Inr obj \<Rightarrow> Inr (obj, maxSeverity)))))))"

fun process_entities ::
  "string list \<Rightarrow> json list \<Rightarrow> subway_object \<times> sev \<Rightarrow> error + (subway_object \<times> sev)" where
  "process_entities routeIds [] acc = Inr acc"
| "process_entities routeIds (entity # rest) acc =
     (case process_entity routeIds entity acc of
        Inl e \<Rightarrow> Inl e
      | Inr acc' \<Rightarrow> process_entities routeIds rest acc')"

definition processMtaJson ::
  "json option \<Rightarrow> string list \<Rightarrow> error + (subway_object \<times> sev)" where
  "processMtaJson mtaJson routeIds =
     (if \<not> truthy mtaJson then Inr (initSubwayStatus, Sev ''none'')
      else (case opt_prop mtaJson ''entity'' of
              Some (JArr entities) \<Rightarrow>
                process_entities routeIds entities (initSubwayStatus, Sev ''none'')
            | _ \<Rightarrow> Inr (initSubwayStatus, Sev ''none'')))"

text \<open>
  When a later alert names a line again, its message replaces the earlier one. The two
  predicates below say that an alert names a line (one of its route ids converts to the
  line's key) and that an entity of the feed reaches the inner loop with such an alert.
\<close>

definition names_line :: "json \<Rightarrow> string \<Rightarrow> bool" where
  "names_line alert line = list_ex (\<lambda>r. js_String r = Inr line) (pickRoutes alert)"

definition touches :: "string list \<Rightarrow> json \<Rightarrow> string \<Rightarrow> bool" where
  "touches routeIds entity line =
     (case opt_prop (Some entity) ''alert'' of
        None \<Rightarrow> False
      | Some alert \<Rightarrow>
          js_truthy alert \<and> (routeIds = [] \<or> hasRequested routeIds (pickRoutes alert))
          \<and> names_line alert line)"

text \<open>
  The values \<^verbatim>\<open>String\<close> cannot convert: an object with an own \<^verbatim>\<open>toString\<close>, or an
  array that holds such a value. An entity of the feed is convertible when its alert's
  effect and route ids are.
\<close>

fun unconvertible :: "json \<Rightarrow> bool" where
  "unconvertible (JObj kvs) = (''toString'' \<in> set (map fst kvs))"
| "unconvertible (JArr xs) = list_ex unconvertible xs"
| "unconvertible v = False"

definition alert_convertible :: "json \<Rightarrow> bool" where
  "alert_convertible entity =
     (case opt_prop (Some entity) ''alert'' of
        None \<Rightarrow> True
      | Some alert \<Rightarrow>
          (case opt_prop (Some alert) ''effect'' of
             None \<Rightarrow> True
           | Some effect \<Rightarrow> \<not> unconvertible effect)
          \<and> list_all (\<lambda>r. \<not> unconvertible r) (pickRoutes alert))"

section \<open>Transit status orchestration\<close>

definition NJ_KEYWORDS :: "string list" where
  "NJ_KEYWORDS =
     [''new jersey'', ''nj'', ''jersey city'', ''hoboken'', ''newark'', ''harrison'',
      ''journal square'', ''grove street'', ''exchange place'', ''newport'', ''secaucus'',
      ''bayonne'', ''weehawken'', ''edgewater'', ''fort lee'', ''union city'']"

text \<open>\<^verbatim>\<open>toLowerCase\<close> on the ASCII letters, and \<^verbatim>\<open>haystack.includes(kw)\<close>.\<close>

definition toLowerCase :: "string \<Rightarrow> string" where
  "toLowerCase s =
     map (\<lambda>c. (case map_of (zip ''ABCDEFGHIJKLMNOPQRSTUVWXYZ'' ''abcdefghijklmnopqrstuvwxyz'') c of
                  Some l \<Rightarrow> l
                | None \<Rightarrow> c)) s"

definition js_includes :: "string \<Rightarrow> string \<Rightarrow> bool" where
  "js_includes haystack kw = sublist kw haystack"

text \<open>\<^verbatim>\<open>x || ""\<close> for a string or \<^verbatim>\<open>null\<close>.\<close>

definition or_empty :: "string option \<Rightarrow> string" where
  "or_empty x = (case x of None \<Rightarrow> [] | Some s \<Rightarrow> s)"

definition isPathRelevant :: "string option \<Rightarrow> string option \<Rightarrow> bool" where
  "isPathRelevant origin destination =
     (let haystack = toLowerCase (or_empty origin @ '' '' @ or_empty destination)
      in list_ex (\<lambda>kw. js_includes haystack kw) NJ_KEYWORDS)"

text \<open>
  \<^verbatim>\<open>fetchMtaAlertsJson\<close>, by the outcome of its request. Its logging line calls
  \<^verbatim>\<open>data?.entity?.slice(0, 3)\<close> inside the \<^verbatim>\<open>try\<close>: an \<^verbatim>\<open>entity\<close> that is neither absent,
  \<^verbatim>\<open>null\<close>, an array nor a string has no callable \<^verbatim>\<open>slice\<close>, and the TypeError is caught
  and answered with \<^verbatim>\<open>null\<close>.
\<close>

definition fetchMtaAlertsJson :: "json reply \<Rightarrow> json option" where
  "fetchMtaAlertsJson r =
     (case r of
        Body data \<Rightarrow>
          (case opt_prop (Some data) ''entity'' of
             None \<Rightarrow> Some data
           | Some JNull \<Rightarrow> Some data
           | Some (JArr xs) \<Rightarrow> Some data
           | Some (JStr t) \<Rightarrow> Some data
           | Some _ \<Rightarrow> None)
      | _ \<Rightarrow> None)"

text \<open>
  The returned status, of which the fields \<^verbatim>\<open>path\<close> and \<^verbatim>\<open>severity\<close> are modelled; the
  per-line map is the one of \<^verbatim>\<open>processMtaJson\<close> above, and neither its filtering by
  \<^verbatim>\<open>routeIds\<close> nor \<^verbatim>\<open>generateSummary\<close> can throw. \<^verbatim>\<open>fetchPATHStatus\<close> resolves on each
  of its paths to an object with a status and a message; that object is an argument here,
  used only when the request is made. The requests made are returned with the status.
\<close>

record transit_status =
  path :: "line_status option"
  severity :: sev

datatype request = MtaAlertsRequest | PathRequest

definition getDefaultTransitStatus :: transit_status where
  "getDefaultTransitStatus =
     \<lparr> path = Some \<lparr> status = ''normal'', message = None \<rparr>, severity = Sev ''none'' \<rparr>"

definition fetchTransitStatus ::
  "string list \<Rightarrow> string option \<Rightarrow> string option \<Rightarrow> json reply \<Rightarrow> line_status
     \<Rightarrow> request list \<times> transit_status" where
  "fetchTransitStatus routeIds origin destination mtaReply pathReply =
     (let pathNeeded = isPathRelevant origin destination;
          mtaJson = fetchMtaAlertsJson mtaReply;
          pathStatus = (if pathNeeded then Some pathReply else None)
      in (MtaAlertsRequest # (if pathNeeded then [PathRequest] else []),
          (case processMtaJson mtaJson routeIds of
             Inl e \<Rightarrow> getDefaultTransitStatus
           | Inr (subwayStatus, maxSeverity) \<Rightarrow>
               \<lparr> path = pathStatus, severity = maxSeverity \<rparr>)))"

section \<open>The route normalizer\<close>

text \<open>
  Numbers of the directions data are modelled by their exact value, or \<^verbatim>\<open>NaN\<close>;
  arithmetic is exact. A comparison with \<^verbatim>\<open>NaN\<close> is false, \<^verbatim>\<open>Math.round\<close> rounds halves
  up.
\<close>

datatype number = Num rat | NaN

fun Math_round :: "number \<Rightarrow> number" where
  "Math_round (Num q) = Num (of_int \<lfloor>q + 1 / 2\<rfloor>)"
| "Math_round NaN = NaN"

fun js_times :: "number \<Rightarrow> number \<Rightarrow> number" where
  "js_times (Num a) (Num b) = Num (a * b)"
| "js_times a b = NaN"

fun js_div :: "number \<Rightarrow> rat \<Rightarrow> number" where
  "js_div (Num a) b = Num (a / b)"
| "js_div NaN b = NaN"

fun js_less :: "number \<Rightarrow> number \<Rightarrow> bool" where
  "js_less (Num a) (Num b) = (a < b)"
| "js_less a b = False"

text \<open>
  A step of a route as the source reads it: \<^verbatim>\<open>s.maneuver?.instruction\<close>,
  \<^verbatim>\<open>s.maneuver?.type\<close>, \<^verbatim>\<open>s.mode\<close>, \<^verbatim>\<open>s.name\<close>, \<^verbatim>\<open>s.duration\<close>, the texts being strings
  when present. Of a route the source reads \<^verbatim>\<open>duration\<close>, \<^verbatim>\<open>distance\<close> and
  \<^verbatim>\<open>legs?.[0]?.steps\<close>.
\<close>

record step =
  maneuver_instruction :: "string option"
  maneuver_type :: "string option"
  mode :: "string option"
  name :: "string option"
  step_duration :: "number option"

record route =
  duration :: number
  distance :: number
  legs0_steps :: "step list option"

definition steps_of :: "route \<Rightarrow> step list" where
  "steps_of r = (case legs0_steps r of None \<Rightarrow> [] | Some ss \<Rightarrow> ss)"

definition FERRY_KEYWORDS :: "string list" where
  "FERRY_KEYWORDS = [''ferry'', ''boat'', ''water taxi'', ''water shuttle'']"

definition isFerryRoute :: "step list \<Rightarrow> bool" where
  "isFerryRoute steps =
     list_ex (\<lambda>s. (let instruction = (case maneuver_instruction s of
                                         None \<Rightarrow> []
                                       | Some i \<Rightarrow> toLowerCase i);
                        m = (case mode s of None \<Rightarrow> [] | Some x \<Rightarrow> toLowerCase x)
                    in m = ''ferry'' \<or> list_ex (\<lambda>kw. js_includes instruction kw) FERRY_KEYWORDS))
             steps"

datatype directions = FerryOnly | Found number number "step list"

text \<open>
  \<^verbatim>\<open>getDirections\<close>, by the outcome of the directions request; the body is its
  \<^verbatim>\<open>routes\<close>, \<open>None\<close> when the field is missing.
\<close>

definition getDirections :: "route list option reply \<Rightarrow> directions option" where
  "getDirections r =
     (case r of
        Body routes \<Rightarrow>
          (case routes of
             None \<Rightarrow> None
           | Some rs \<Rightarrow>
               (if rs = [] then None
                else (case filter (\<lambda>x. \<not> isFerryRoute (steps_of x)) rs of
                        [] \<Rightarrow> Some FerryOnly
                      | x # _ \<Rightarrow> Some (Found (duration x) (distance x) (steps_of x)))))
      | _ \<Rightarrow> None)"

record coords =
  lat :: number
  lng :: number

text \<open>
  \<^verbatim>\<open>geocodeDestination\<close>; the body is the coordinate pairs \<^verbatim>\<open>[lng, lat]\<close> of its
  \<^verbatim>\<open>features\<close>, \<open>None\<close> when the field is missing.
\<close>

definition geocodeDestination :: "(number \<times> number) list option reply \<Rightarrow> coords option" where
  "geocodeDestination r =
     (case r of
        Body (Some ((lng0, lat0) # _)) \<Rightarrow> Some \<lparr> lat = lat0, lng = lng0 \<rparr>
      | _ \<Rightarrow> None)"

datatype multiplier = Factor rat | InheritedMember string

definition multipliers :: "(string \<times> rat) list" where
  "multipliers =
     [(''none'', 1), (''light'', 13 / 10), (''moderate'', 17 / 10), (''severe'', 22 / 10),
      (''extreme'', 3)]"

text \<open>
  \<^verbatim>\<open>multipliers[weatherSeverity] || 1.0\<close>: an own entry (all are non-zero), a member
  inherited from \<^verbatim>\<open>Object.prototype\<close> under that name (truthy, so it is returned), or 1.
\<close>

definition getStormMultiplier :: "string \<Rightarrow> multiplier" where
  "getStormMultiplier weatherSeverity =
     (case table_get multipliers weatherSeverity of
        Own m \<Rightarrow> (if m \<noteq> 0 then Factor m else Factor 1)
      | Inherited k \<Rightarrow> InheritedMember k
      | Absent \<Rightarrow> Factor 1)"

text \<open>\<^verbatim>\<open>baselineMinutes * stormMultiplier\<close>: a function or object as factor gives \<^verbatim>\<open>NaN\<close>.\<close>

fun times_multiplier :: "number \<Rightarrow> multiplier \<Rightarrow> number" where
  "times_multiplier n (Factor m) = js_times n (Num m)"
| "times_multiplier n (InheritedMember k) = NaN"

definition getDistanceCategory :: "number \<Rightarrow> string" where
  "getDistanceCategory distanceMiles =
     (if js_less distanceMiles (Num (8 / 10)) then ''walkable''
      else if js_less distanceMiles (Num 3) then ''short_transit''
      else ''long_transit'')"

record route_step =
  instruction :: "string option"
  street :: "string option"
  duration_sec :: number

record travel_data =
  baseline_minutes :: "number option"
  storm_minutes :: "number option"
  distance_miles :: "number option"
  distance_category :: string
  best_route :: "string option"
  ferry_only_route :: bool
  relevantLines :: "string list"
  route_steps :: "route_step list"

definition ferryOnlyTravelData :: travel_data where
  "ferryOnlyTravelData =
     \<lparr> baseline_minutes = None, storm_minutes = None, distance_miles = None,
       distance_category = ''unknown'', best_route = None, ferry_only_route = True,
       relevantLines = [], route_steps = [] \<rparr>"

text \<open>
  What \<^verbatim>\<open>fetchTravelData\<close> finds around it: the configured token and the outcomes of
  the two requests it may make.
\<close>

record travel_env =
  mapboxKey :: "string option"
  geocodeReply :: "(number \<times> number) list option reply"
  directionsReply :: "route list option reply"

text \<open>
  \<^verbatim>\<open>fetchTravelData\<close>. The route description
  (\<^verbatim>\<open>generateStepBasedRoute(...) || generateFallbackRoute(...)\<close>) and the line extraction
  (\<^verbatim>\<open>extractRelevantLines\<close>, a regular-expression scan) build texts from the steps; they
  are arguments here, \<open>describeRoute\<close> and \<open>extractLines\<close>. The origin coordinates and the
  destination label only enter the request addresses. On steps and routes of the shape
  above nothing between the requests throws, so the closing \<^verbatim>\<open>catch\<close> has no case of its
  own: a failed request is \<open>None\<close> of \<^verbatim>\<open>geocodeDestination\<close> or \<^verbatim>\<open>getDirections\<close>.
\<close>

definition fetchTravelData ::
  "(step list \<Rightarrow> number \<Rightarrow> string \<Rightarrow> string \<Rightarrow> string) \<Rightarrow> (step list \<Rightarrow> string list)
     \<Rightarrow> travel_env \<Rightarrow> string \<Rightarrow> coords option \<Rightarrow> travel_data option" where
  "fetchTravelData describeRoute extractLines env weatherSeverity destCoordsHint =
     (if or_empty (mapboxKey env) = [] then None
      else (case (case destCoordsHint of
                    Some c \<Rightarrow> Some c
                  | None \<Rightarrow> geocodeDestination (geocodeReply env)) of
              None \<Rightarrow> None
            | Some destCoords \<Rightarrow>
                (case getDirections (directionsReply env) of
                   None \<Rightarrow> None
                 | Some FerryOnly \<Rightarrow> Some ferryOnlyTravelData
                 | Some (Found dDuration dDistance dSteps) \<Rightarrow>
                     (let baselineMinutes = Math_round (js_div dDuration 60);
                          stormMultiplier = getStormMultiplier weatherSeverity;
                          stormMinutes = Math_round (times_multiplier baselineMinutes stormMultiplier);
                          distanceMiles =
                            js_div (Math_round (js_times (js_times dDistance (Num (621371 / 1000000000)))
                                                         (Num 10))) 10;
                          distanceCategory = getDistanceCategory distanceMiles
                      in Some \<lparr> baseline_minutes = Some baselineMinutes,
                                storm_minutes = Some stormMinutes,
                                distance_miles = Some distanceMiles,
                                distance_category = distanceCategory,
                                best_route = Some (describeRoute dSteps baselineMinutes
                                                     distanceCategory weatherSeverity),
                                ferry_only_route = False,
                                relevantLines = extractLines dSteps,
                                route_steps =
                                  map (\<lambda>s. \<lparr> instruction = maneuver_instruction s,
                                              street = name s,
                                              duration_sec =
                                                Math_round (case step_duration s of
                                                              None \<Rightarrow> Num 0
                                                            | Some d \<Rightarrow> d) \<rparr>)
                                      (take 6 dSteps) \<rparr>))))"

text \<open>Trivial instances of the two text builders, for evaluating \<^verbatim>\<open>fetchTravelData\<close>.\<close>

definition blank_description :: "step list \<Rightarrow> number \<Rightarrow> string \<Rightarrow> string \<Rightarrow> string" where
  "blank_description steps minutes category weatherSeverity = []"

definition no_lines :: "step list \<Rightarrow> string list" where
  "no_lines steps = []"

section \<open>The travel ban stub and the walkable flag\<close>

record travel_ban =
  ban_level :: string
  plain_english :: "string option"
  affects_walking :: bool
  affects_subway :: bool
  affects_rideshare :: bool

definition getDefaultTravelBan :: travel_ban where
  "getDefaultTravelBan =
     \<lparr> ban_level = ''none'', plain_english = None, affects_walking = False,
       affects_subway = False, affects_rideshare = False \<rparr>"

text \<open>\<^verbatim>\<open>parseTravelBanHTML\<close>, which the module defines and nothing calls.\<close>

definition parseTravelBanHTML :: "string \<Rightarrow> travel_ban" where
  "parseTravelBanHTML html =
     (let lowerHtml = toLowerCase html in
      if list_ex (\<lambda>kw. js_includes lowerHtml kw)
           [''transit suspended'', ''subway suspended'', ''mta suspended'']
      then \<lparr> ban_level = ''transit_suspended'',
             plain_english = Some ''NYC Transit (MTA) services are suspended'',
             affects_walking = False, affects_subway = True, affects_rideshare = True \<rparr>
      else if list_ex (\<lambda>kw. js_includes lowerHtml kw)
           [''vehicle ban'', ''no private vehicles'', ''no cars allowed'']
      then \<lparr> ban_level = ''vehicle_ban'',
             plain_english = Some ''All private vehicles banned from NYC streets'',
             affects_walking = False, affects_subway = False, affects_rideshare = True \<rparr>
      else if list_ex (\<lambda>kw. js_includes lowerHtml kw)
           [''travel advisory'', ''travel strongly discouraged'']
      then \<lparr> ban_level = ''advisory'',
             plain_english =
               Some ''Travel is strongly discouraged; only travel if absolutely necessary'',
             affects_walking = True, affects_subway = False, affects_rideshare = False \<rparr>
      else \<lparr> ban_level = ''none'', plain_english = None, affects_walking = False,
             affects_subway = False, affects_rideshare = False \<rparr>)"

text \<open>
  The module state of the travel ban: the cached object and the time it was cached, both
  \<^verbatim>\<open>null\<close> at load. Times are \<^verbatim>\<open>Date.now()\<close> in milliseconds.
\<close>

record ban_cache =
  cachedTravelBan :: "travel_ban option"
  cacheTimestamp :: "int option"

definition initial_cache :: ban_cache where
  "initial_cache = \<lparr> cachedTravelBan = None, cacheTimestamp = None \<rparr>"

definition CACHE_DURATION_MS :: int where
  "CACHE_DURATION_MS = 10 * 60 * 1000"

text \<open>
  One call of \<^verbatim>\<open>fetchTravelBan\<close>. The clock is read once for the freshness test (when
  both slots are truthy) and once more when the cache is written; the functions of the
  module that the call invokes are recorded.
\<close>

datatype invoked = Invoked_getDefaultTravelBan | Invoked_parseTravelBanHTML string

definition fetchTravelBan ::
  "ban_cache \<Rightarrow> int \<Rightarrow> int \<Rightarrow> travel_ban \<times> ban_cache \<times> invoked list" where
  "fetchTravelBan c now now' =
     (let refresh = (getDefaultTravelBan,
                     \<lparr> cachedTravelBan = Some getDefaultTravelBan, cacheTimestamp = Some now' \<rparr>,
                     [Invoked_getDefaultTravelBan])
      in (case cachedTravelBan c of
            None \<Rightarrow> refresh
          | Some cached \<Rightarrow>
              (case cacheTimestamp c of
                 None \<Rightarrow> refresh
               | Some t \<Rightarrow>
                   (if t \<noteq> 0 \<and> now - t < CACHE_DURATION_MS then (cached, c, [])
                    else refresh))))"

text \<open>
  Successive calls from a given module state, each with its two clock readings: the
  objects they resolve to and the functions they invoked.
\<close>

fun fetchTravelBan_calls ::
  "ban_cache \<Rightarrow> (int \<times> int) list \<Rightarrow> (travel_ban \<times> invoked list) list" where
  "fetchTravelBan_calls c [] = []"
| "fetchTravelBan_calls c ((now, now') # rest) =
     (case fetchTravelBan c now now' of
        (ban, c', called) \<Rightarrow> (ban, called) # fetchTravelBan_calls c' rest)"

text \<open>
  The invariant of the module state: the slot is empty or holds the no-ban object (nothing
  else is ever written to it).
\<close>

definition cache_holds_default :: "ban_cache \<Rightarrow> bool" where
  "cache_holds_default c =
     (cachedTravelBan c = None \<or> cachedTravelBan c = Some getDefaultTravelBan)"

text \<open>The flag \<^verbatim>\<open>is_walkable\<close> that \<^verbatim>\<open>handleSubmit\<close> adds to the payload.\<close>

definition isWalkable :: "travel_data option \<Rightarrow> bool" where
  "isWalkable travelData =
     (case travelData of
        None \<Rightarrow> False
      | Some d \<Rightarrow>
          distance_category d = ''walkable'' \<or>
          (case baseline_minutes d of
             None \<Rightarrow> False
           | Some b \<Rightarrow> js_less b (Num 20)))"

section \<open>Properties of the schema enforcer\<close>

lemma coerceReasons_length:
  "coerceReasons rs = Inr ss \<Longrightarrow> length ss = length rs"
  by (induction rs arbitrary: ss) (auto split: sum.splits)

lemma normalizeReasons_length:
  "1 \<le> length (normalizeReasons p) \<and> length (normalizeReasons p) \<le> 3"
  by (simp add: normalizeReasons_def Let_def split: option.splits json.splits)

lemma normalizeRecommendation_reasons_length:
  assumes "normalizeRecommendation p = Inr r"
  shows "1 \<le> length (reasons r) \<and> length (reasons r) \<le> 3"
proof -
  from assms obtain rs where c: "coerceReasons (normalizeReasons p) = Inr rs" and r: "reasons r = rs"
    by (auto simp: normalizeRecommendation_def split: if_splits sum.splits)
  from coerceReasons_length [OF c] r normalizeReasons_length [of p] show ?thesis by simp
qed

text \<open>
  Claim C1 (the reasons of every recommendation number at least two and at most three,
  the safe default included). The upper bound holds, the lower one does not: the source
  pushes the filler once, so an input with no reasons leaves with a single reason, and the
  safe default carries a single reason too. Evaluated at the empty object, at a failed
  parse and at the default itself.
\<close>

theorem empty_object_yields_one_reason:
  "map_sum id reasons (normalizeRecommendation (JObj [])) = Inr [fillerReason]
   \<and> length (reasons (getRecommendation (Body (JObj [])))) = 1
   \<and> length (reasons getDefaultRecommendation) = 1
   \<and> length (reasons (getRecommendation Malformed)) = 1"
  by (simp add: getRecommendation_def normalizeRecommendation_def normalizeReasons_def js_or_def
      getDefaultRecommendation_def)

text \<open>
  Claim C2, as stated: \<^verbatim>\<open>{not_tonight: "Stay in tonight"}\<close> resolves to
  \<^verbatim>\<open>"Wait it out"\<close>. It does not: \<^verbatim>\<open>not_tonight\<close> is one of the aliases the source
  consults, and its value is an allowed verdict.
\<close>

theorem not_tonight_alias_is_consulted:
  "map_sum id verdict (normalizeRecommendation (JObj [(''not_tonight'', JStr ''Stay in tonight'')]))
     = Inr ''Stay in tonight''
   \<and> map_sum id verdict (normalizeRecommendation (JObj [(''not_tonight'', JStr ''Stay in tonight'')]))
     \<noteq> Inr ''Wait it out''"
  by (simp add: normalizeRecommendation_def normalizeReasons_def normalizeVerdict_def js_or_def
      allowedVerdicts_def)

lemma normalizeVerdict_no_alias:
  assumes "\<not> truthy (get_prop p ''verdict'')"
    and "\<not> truthy (get_prop p ''recommendation'')"
    and "\<not> truthy (get_prop p ''not_tonight'')"
    and "\<not> truthy (get_prop p ''wait_it_out'')"
  shows "normalizeVerdict p = ''Wait it out''"
  using assms by (simp add: normalizeVerdict_def js_or_def allowedVerdicts_def)

text \<open>
  Claim C2, amended: when the canonical \<^verbatim>\<open>verdict\<close> and the three listed aliases
  \<^verbatim>\<open>recommendation\<close>, \<^verbatim>\<open>not_tonight\<close> and \<^verbatim>\<open>wait_it_out\<close> are all absent (or falsy),
  the verdict is \<^verbatim>\<open>"Wait it out"\<close>, whatever other keys the object carries: no unlisted key
  is consulted.
\<close>

theorem verdict_defaults_without_listed_alias:
  assumes "\<not> truthy (get_prop p ''verdict'')"
    and "\<not> truthy (get_prop p ''recommendation'')"
    and "\<not> truthy (get_prop p ''not_tonight'')"
    and "\<not> truthy (get_prop p ''wait_it_out'')"
    and "normalizeRecommendation p = Inr r"
  shows "verdict r = ''Wait it out''"
proof -
  from assms(5) have "verdict r = normalizeVerdict p"
    by (auto simp: normalizeRecommendation_def split: if_splits sum.splits)
  with normalizeVerdict_no_alias [OF assms(1-4)] show ?thesis by simp
qed

theorem verdict_defaults_without_listed_alias_witness:
  "normalizeRecommendation (JObj [(''tonight'', JStr ''Stay in tonight'')])
     = Inr \<lparr> verdict = ''Wait it out'', reasons = [fillerReason], return_risk = ''unknown'',
             best_route_advice = None, summary = fallbackSummary \<rparr>"
proof -
  let ?p = "JObj [(''tonight'', JStr ''Stay in tonight'')]"
  obtain r where r: "normalizeRecommendation ?p = Inr r"
    by (simp add: normalizeRecommendation_def normalizeReasons_def js_or_def)
  have "verdict r = ''Wait it out''"
    by (rule verdict_defaults_without_listed_alias [OF _ _ _ _ r]) simp_all
  moreover from r have "reasons r = [fillerReason]" "return_risk r = ''unknown''"
     "best_route_advice r = None" "summary r = fallbackSummary"
    by (auto simp add: normalizeRecommendation_def normalizeReasons_def js_or_def
         normalizeReturnRisk_def normalizeBestRouteAdvice_def normalizeSummary_def)
  ultimately have "r = \<lparr> verdict = ''Wait it out'', reasons = [fillerReason],
      return_risk = ''unknown'', best_route_advice = None, summary = fallbackSummary \<rparr>"
    by simp
  with r show ?thesis by simp
qed

section \<open>Properties of the alert normalizer\<close>

lemmas eval_defs = processMtaJson_def process_entity_def mapSeverity_def pickRoutes_def
      table_get_def effectMap_def pickAlertText_def js_or_def hasRequested_def
      has_truthy_def assign_def initSubwayStatus_def commonLines_def object_prototype_keys_def
      names_line_def touches_def

text \<open>
  Claim C3 (the severity returned is the maximum, under the rank
  none < low < moderate < high < extreme, of the severities of the alerts that pass the
  filter). The source assigns \<^verbatim>\<open>maxSeverity = severity\<close> for every severity other than
  \<^verbatim>\<open>"none"\<close> without comparing: the last such alert wins. Evaluated on a feed whose first
  alert maps to \<^verbatim>\<open>extreme\<close> and whose second maps to \<^verbatim>\<open>low\<close>.
\<close>

theorem later_lower_severity_replaces_higher:
  "map_sum id snd
     (processMtaJson
        (Some (JObj [(''entity'', JArr
           [JObj [(''alert'', JObj [(''effect'', JStr ''NO_SERVICE'')])],
            JObj [(''alert'', JObj [(''effect'', JStr ''STOP_MOVED'')])]])])) [])
     = Inr (Sev ''low'')
   \<and> mapSeverity (JObj [(''effect'', JStr ''NO_SERVICE'')]) = Inr (Sev ''extreme'')
   \<and> mapSeverity (JObj [(''effect'', JStr ''STOP_MOVED'')]) = Inr (Sev ''low'')"
  by (simp add: eval_defs)

lemma apply_routes_keeps_target:
  assumes "apply_routes msg rs obj = Inr obj'"
    and "own obj line = Some \<lparr> status = (if truthy msg then ''delays'' else ''normal''), message = msg \<rparr>"
  shows "own obj' line = Some \<lparr> status = (if truthy msg then ''delays'' else ''normal''), message = msg \<rparr>"
  using assms
proof (induction rs arbitrary: obj)
  case Nil
  then show ?case by simp
next
  case (Cons r rs)
  from Cons.prems(1) obtain k where k: "js_String r = Inr k"
    by (auto split: sum.splits)
  let ?obj1 = "(if has_truthy obj k
             then assign obj k \<lparr> status = (if truthy msg then ''delays'' else ''normal''),
                                 message = msg \<rparr>
             else obj)"
  from Cons.prems(1) k have step: "apply_routes msg rs ?obj1 = Inr obj'" by simp
  have "own ?obj1 line = Some \<lparr> status = (if truthy msg then ''delays'' else ''normal''), message = msg \<rparr>"
    using Cons.prems(2) by (simp add: assign_def)
  from Cons.IH [OF step this] show ?case .
qed

lemma apply_routes_sets_named:
  assumes "apply_routes msg rs obj = Inr obj'"
    and "own obj line \<noteq> None"
    and "line \<noteq> ''__proto__''"
    and "list_ex (\<lambda>r. js_String r = Inr line) rs"
  shows "own obj' line = Some \<lparr> status = (if truthy msg then ''delays'' else ''normal''), message = msg \<rparr>"
  using assms
proof (induction rs arbitrary: obj)
  case Nil
  then show ?case by simp
next
  case (Cons r rs)
  from Cons.prems(1) obtain k where k: "js_String r = Inr k"
    by (auto split: sum.splits)
  let ?v = "\<lparr> status = (if truthy msg then ''delays'' else ''normal''), message = msg \<rparr>"
  let ?obj1 = "(if has_truthy obj k then assign obj k ?v else obj)"
  from Cons.prems(1) k have step: "apply_routes msg rs ?obj1 = Inr obj'" by simp
  show ?case
  proof (cases "k = line")
    case True
    with Cons.prems(2,3) have "own ?obj1 line = Some ?v"
      by (simp add: has_truthy_def assign_def)
    from apply_routes_keeps_target [OF step this] show ?thesis .
  next
    case False
    with k Cons.prems(4) have ex: "list_ex (\<lambda>r. js_String r = Inr line) rs" by auto
    from False Cons.prems(2) have "own ?obj1 line \<noteq> None" by (simp add: assign_def)
    from Cons.IH [OF step this Cons.prems(3) ex] show ?thesis .
  qed
qed

lemma apply_routes_leaves_unnamed:
  assumes "apply_routes msg rs obj = Inr obj'"
    and "\<not> list_ex (\<lambda>r. js_String r = Inr line) rs"
  shows "own obj' line = own obj line"
  using assms
proof (induction rs arbitrary: obj)
  case Nil
  then show ?case by simp
next
  case (Cons r rs)
  from Cons.prems(1) obtain k where k: "js_String r = Inr k"
    by (auto split: sum.splits)
  let ?v = "\<lparr> status = (if truthy msg then ''delays'' else ''normal''), message = msg \<rparr>"
  let ?obj1 = "(if has_truthy obj k then assign obj k ?v else obj)"
  from Cons.prems(1) k have step: "apply_routes msg rs ?obj1 = Inr obj'" by simp
  from Cons.prems(2) k have ne: "k \<noteq> line" and rest: "\<not> list_ex (\<lambda>r. js_String r = Inr line) rs"
    by auto
  from ne have "own ?obj1 line = own obj line" by (simp add: assign_def)
  with Cons.IH [OF step rest] show ?case by simp
qed

lemma apply_routes_keeps_keys:
  assumes "apply_routes msg rs obj = Inr obj'" and "own obj line \<noteq> None"
  shows "own obj' line \<noteq> None"
  using assms
proof (induction rs arbitrary: obj)
  case Nil
  then show ?case by simp
next
  case (Cons r rs)
  from Cons.prems(1) obtain k where k: "js_String r = Inr k"
    by (auto split: sum.splits)
  let ?v = "\<lparr> status = (if truthy msg then ''delays'' else ''normal''), message = msg \<rparr>"
  let ?obj1 = "(if has_truthy obj k then assign obj k ?v else obj)"
  from Cons.prems(1) k have step: "apply_routes msg rs ?obj1 = Inr obj'" by simp
  from Cons.prems(2) have "own ?obj1 line \<noteq> None" by (simp add: assign_def)
  from Cons.IH [OF step this] show ?case .
qed

lemma process_entity_leaves_untouched:
  assumes "process_entity routeIds e acc = Inr acc'" and "\<not> touches routeIds e line"
  shows "own (fst acc') line = own (fst acc) line"
  using assms
  by (auto simp: process_entity_def touches_def names_line_def Let_def
      split: option.splits if_splits sum.splits dest: apply_routes_leaves_unnamed)

lemma process_entity_keeps_keys:
  assumes "process_entity routeIds e acc = Inr acc'" and "own (fst acc) line \<noteq> None"
  shows "own (fst acc') line \<noteq> None"
  using assms
  by (auto simp: process_entity_def Let_def
      split: option.splits if_splits sum.splits dest: apply_routes_keeps_keys)

lemma process_entities_leaves_untouched:
  assumes "process_entities routeIds es acc = Inr acc'"
    and "\<not> list_ex (\<lambda>e. touches routeIds e line) es"
  shows "own (fst acc') line = own (fst acc) line"
  using assms
proof (induction es arbitrary: acc)
  case Nil
  then show ?case by simp
next
  case (Cons e es)
  from Cons.prems(1) obtain a where a: "process_entity routeIds e acc = Inr a"
    and rest: "process_entities routeIds es a = Inr acc'"
    by (auto split: sum.splits)
  from Cons.prems(2) have "\<not> touches routeIds e line" "\<not> list_ex (\<lambda>e. touches routeIds e line) es"
    by auto
  with process_entity_leaves_untouched [OF a] Cons.IH [OF rest] show ?case by simp
qed

lemma process_entities_keeps_keys:
  assumes "process_entities routeIds es acc = Inr acc'" and "own (fst acc) line \<noteq> None"
  shows "own (fst acc') line \<noteq> None"
  using assms
proof (induction es arbitrary: acc)
  case Nil
  then show ?case by simp
next
  case (Cons e es)
  from Cons.prems(1) obtain a where a: "process_entity routeIds e acc = Inr a"
    and rest: "process_entities routeIds es a = Inr acc'"
    by (auto split: sum.splits)
  from process_entity_keeps_keys [OF a Cons.prems(2)] Cons.IH [OF rest] show ?case by simp
qed

lemma process_entities_append:
  "process_entities routeIds (xs @ ys) acc =
     (case process_entities routeIds xs acc of
        Inl e \<Rightarrow> Inl e
      | Inr a \<Rightarrow> process_entities routeIds ys a)"
  by (induction xs arbitrary: acc) (auto split: sum.splits)

lemma pickAlertText_truthy:
  assumes "pickAlertText alert = Some m" and "js_truthy alert"
  shows "js_truthy m"
  using assms
  by (cases alert) (auto simp: pickAlertText_def Let_def split: if_splits)

lemma initSubwayStatus_known:
  "line \<in> set commonLines \<Longrightarrow> own initSubwayStatus line \<noteq> None"
  by (simp add: initSubwayStatus_def map_of_eq_None_iff image_image)

lemma commonLines_not_proto: "line \<in> set commonLines \<Longrightarrow> line \<noteq> ''__proto__''"
  by (auto simp: commonLines_def)

lemma process_entity_sets_named:
  assumes run: "process_entity routeIds entity acc = Inr acc'"
    and alert: "opt_prop (Some entity) ''alert'' = Some alert" "js_truthy alert"
    and pass: "routeIds = [] \<or> hasRequested routeIds (pickRoutes alert)"
    and known: "own (fst acc) line \<noteq> None" "line \<noteq> ''__proto__''"
    and named: "names_line alert line"
    and msg: "pickAlertText alert = Some m"
  shows "own (fst acc') line = Some \<lparr> status = ''delays'', message = Some m \<rparr>"
proof -
  from pickAlertText_truthy [OF msg alert(2)] have t: "truthy (Some m)" by simp
  from run alert pass msg obtain obj' sv where
    ar: "apply_routes (Some m) (pickRoutes alert) (fst acc) = Inr obj'" and acc': "acc' = (obj', sv)"
    by (auto simp: process_entity_def Let_def split: sum.splits if_splits)
  from named have "list_ex (\<lambda>r. js_String r = Inr line) (pickRoutes alert)"
    by (simp add: names_line_def)
  from apply_routes_sets_named [OF ar known this] t acc' show ?thesis by simp
qed

text \<open>
  When the alert processing returns: \<^verbatim>\<open>String\<close> throws exactly on the unconvertible
  values, and a feed whose entities are convertible is processed to the end.
\<close>

lemma js_String_throws_iff:
  "isl (js_String v) \<longleftrightarrow> unconvertible v"
  "isl (js_join xs) \<longleftrightarrow> list_ex unconvertible xs"
  by (induction v and xs rule: js_String_js_join.induct) (auto split: sum.splits)

lemma apply_routes_returns:
  "list_all (\<lambda>r. \<not> unconvertible r) rs \<Longrightarrow> \<exists>obj'. apply_routes msg rs obj = Inr obj'"
proof (induction rs arbitrary: obj)
  case Nil
  then show ?case by simp
next
  case (Cons r rs)
  from Cons.prems have "\<not> isl (js_String r)" by (simp add: js_String_throws_iff)
  then obtain k where "js_String r = Inr k" by (cases "js_String r") auto
  with Cons show ?case by simp
qed

lemma mapSeverity_returns:
  assumes "case opt_prop (Some alert) ''effect'' of None \<Rightarrow> True | Some effect \<Rightarrow> \<not> unconvertible effect"
  shows "\<exists>s. mapSeverity alert = Inr s"
proof (cases "opt_prop (Some alert) ''effect''")
  case None
  then show ?thesis by (simp add: mapSeverity_def)
next
  case (Some effect)
  with assms have "\<not> isl (js_String effect)" by (simp add: js_String_throws_iff)
  then obtain k where "js_String effect = Inr k" by (cases "js_String effect") auto
  with Some show ?thesis
    by (cases "table_get effectMap k") (simp_all add: mapSeverity_def)
qed

lemma process_entity_returns:
  assumes "alert_convertible entity"
  shows "\<exists>acc'. process_entity routeIds entity acc = Inr acc'"
proof (cases "opt_prop (Some entity) ''alert''")
  case None
  then show ?thesis by (simp add: process_entity_def)
next
  case (Some alert)
  with assms have e: "case opt_prop (Some alert) ''effect'' of None \<Rightarrow> True | Some effect \<Rightarrow> \<not> unconvertible effect"
    and r: "list_all (\<lambda>r. \<not> unconvertible r) (pickRoutes alert)"
    by (simp_all add: alert_convertible_def)
  from mapSeverity_returns [OF e] obtain s where s: "mapSeverity alert = Inr s" by blast
  from apply_routes_returns [OF r] obtain obj'
    where "apply_routes (pickAlertText alert) (pickRoutes alert) (fst acc) = Inr obj'" by blast
  with Some s show ?thesis by (simp add: process_entity_def Let_def)
qed

lemma process_entities_returns:
  "list_all alert_convertible es \<Longrightarrow> \<exists>acc'. process_entities routeIds es acc = Inr acc'"
proof (induction es arbitrary: acc)
  case Nil
  then show ?case by simp
next
  case (Cons e es)
  from Cons.prems process_entity_returns [of e routeIds acc]
  obtain a where "process_entity routeIds e acc = Inr a" by auto
  with Cons show ?case by simp
qed

lemma processMtaJson_returns:
  assumes "case opt_prop mtaJson ''entity'' of Some (JArr es) \<Rightarrow> list_all alert_convertible es | _ \<Rightarrow> True"
  shows "\<exists>res. processMtaJson mtaJson routeIds = Inr res"
  using assms process_entities_returns [of _ routeIds "(initSubwayStatus, Sev ''none'')"]
  by (auto simp: processMtaJson_def split: option.splits json.splits)

lemma coerceReasons_throws_iff:
  "isl (coerceReasons rs) \<longleftrightarrow> list_ex unconvertible rs"
proof (induction rs)
  case Nil
  then show ?case by simp
next
  case (Cons r rs)
  have "isl (case r of JStr s \<Rightarrow> Inr s | _ \<Rightarrow> js_String r) \<longleftrightarrow> unconvertible r"
    using js_String_throws_iff(1) [of r] by (cases r) simp_all
  with Cons show ?case by (auto split: sum.splits)
qed

lemma normalizeRecommendation_throws_iff:
  "isl (normalizeRecommendation p) \<longleftrightarrow> p = JNull \<or> list_ex unconvertible (normalizeReasons p)"
  using coerceReasons_throws_iff [of "normalizeReasons p"]
  by (auto simp: normalizeRecommendation_def split: sum.splits)

text \<open>
  Claim C4, amended: for an alert of the feed that reaches the inner loop (truthy, passing
  the route filter), has a non-null extracted message and names a known line, the per-line
  map returned assigns that line the status \<^verbatim>\<open>delays\<close> with that message, whatever the
  alert's effect, provided no later alert that reaches the inner loop names the same line.
\<close>

theorem message_of_last_alert_marks_line_delayed:
  assumes run: "processMtaJson (Some feed) routeIds = Inr (obj, sv)"
    and feed: "opt_prop (Some feed) ''entity'' = Some (JArr (before @ entity # after))"
    and alert: "opt_prop (Some entity) ''alert'' = Some alert" "js_truthy alert"
    and pass: "routeIds = [] \<or> hasRequested routeIds (pickRoutes alert)"
    and line: "line \<in> set commonLines" "names_line alert line"
    and msg: "pickAlertText alert = Some m"
    and last: "\<not> list_ex (\<lambda>e. touches routeIds e line) after"
  shows "own obj line = Some \<lparr> status = ''delays'', message = Some m \<rparr>"
proof -
  from feed have tr: "truthy (Some feed)" by (cases feed) auto
  from run feed tr have
    "process_entities routeIds (before @ entity # after) (initSubwayStatus, Sev ''none'') = Inr (obj, sv)"
    by (simp add: processMtaJson_def)
  then obtain a1 a2 where
    b: "process_entities routeIds before (initSubwayStatus, Sev ''none'') = Inr a1"
    and e: "process_entity routeIds entity a1 = Inr a2"
    and a: "process_entities routeIds after a2 = Inr (obj, sv)"
    by (auto simp: process_entities_append split: sum.splits)
  from process_entities_keeps_keys [OF b] initSubwayStatus_known [OF line(1)]
  have k1: "own (fst a1) line \<noteq> None" by simp
  from process_entity_sets_named [OF e alert pass k1 commonLines_not_proto [OF line(1)] line(2) msg]
  have "own (fst a2) line = Some \<lparr> status = ''delays'', message = Some m \<rparr>" .
  with process_entities_leaves_untouched [OF a last] show ?thesis by simp
qed

theorem message_of_last_alert_marks_line_delayed_witness:
  "map_sum id (\<lambda>r. own (fst r) ''4'')
     (processMtaJson
        (Some (JObj [(''entity'', JArr [JObj [(''alert'',
            JObj [(''informed_entity'', JArr [JObj [(''route_id'', JStr ''4'')]]),
                  (''header_text'', JObj [(''translation'',
                      JArr [JObj [(''text'', JStr ''4 trains running with delays'')]])])])]])])) [])
   = Inr (Some \<lparr> status = ''delays'', message = Some (JStr ''4 trains running with delays'') \<rparr>)"
proof -
  let ?alert = "JObj [(''informed_entity'', JArr [JObj [(''route_id'', JStr ''4'')]]),
                  (''header_text'', JObj [(''translation'',
                      JArr [JObj [(''text'', JStr ''4 trains running with delays'')]])])]"
  let ?entity = "JObj [(''alert'', ?alert)]"
  let ?feed = "JObj [(''entity'', JArr [?entity])]"
  obtain obj sv where run: "processMtaJson (Some ?feed) [] = Inr (obj, sv)"
    by (simp add: eval_defs)
  have "own obj ''4'' = Some \<lparr> status = ''delays'', message = Some (JStr ''4 trains running with delays'') \<rparr>"
    by (rule message_of_last_alert_marks_line_delayed [OF run, where before = "[]" and after = "[]"
          and entity = ?entity and alert = ?alert])
       (simp_all add: eval_defs)
  with run show ?thesis by simp
qed

text \<open>
  Claim C4, as stated, promises the line the message of \<^emph>\<open>every\<close> such alert. Two alerts
  with different messages name line 4 here; the map keeps one message per line, that of
  the later alert, so the first alert's message is not the one assigned.
\<close>

theorem later_alert_replaces_message:
  "map_sum id (\<lambda>r. own (fst r) ''4'')
     (processMtaJson
        (Some (JObj [(''entity'', JArr
           [JObj [(''alert'',
              JObj [(''informed_entity'', JArr [JObj [(''route_id'', JStr ''4'')]]),
                    (''header_text'', JObj [(''translation'',
                        JArr [JObj [(''text'', JStr ''4 trains running with delays'')]])])])],
            JObj [(''alert'',
              JObj [(''informed_entity'', JArr [JObj [(''route_id'', JStr ''4'')]]),
                    (''header_text'', JObj [(''translation'',
                        JArr [JObj [(''text'', JStr ''Planned work'')]])])])]])])) [])
     = Inr (Some \<lparr> status = ''delays'', message = Some (JStr ''Planned work'') \<rparr>)
   \<and> pickAlertText
        (JObj [(''informed_entity'', JArr [JObj [(''route_id'', JStr ''4'')]]),
               (''header_text'', JObj [(''translation'',
                   JArr [JObj [(''text'', JStr ''4 trains running with delays'')]])])])
     = Some (JStr ''4 trains running with delays'')
   \<and> names_line
        (JObj [(''informed_entity'', JArr [JObj [(''route_id'', JStr ''4'')]]),
               (''header_text'', JObj [(''translation'',
                   JArr [JObj [(''text'', JStr ''4 trains running with delays'')]])])]) ''4''
   \<and> ''4'' \<in> set commonLines
   \<and> JStr ''Planned work'' \<noteq> JStr ''4 trains running with delays''"
  by (simp add: eval_defs)

text \<open>
  A later alert that names the line and carries no text writes \<^verbatim>\<open>normal\<close> and
  \<^verbatim>\<open>null\<close> over the earlier message.
\<close>

lemma later_alert_without_text_resets_line:
  "map_sum id (\<lambda>r. own (fst r) ''4'')
     (processMtaJson
        (Some (JObj [(''entity'', JArr
           [JObj [(''alert'',
              JObj [(''informed_entity'', JArr [JObj [(''route_id'', JStr ''4'')]]),
                    (''header_text'', JObj [(''translation'',
                        JArr [JObj [(''text'', JStr ''4 trains running with delays'')]])])])],
            JObj [(''alert'',
              JObj [(''informed_entity'', JArr [JObj [(''route_id'', JStr ''4'')]]),
                    (''effect'', JStr ''NO_SERVICE'')])]])])) [])
     = Inr (Some \<lparr> status = ''normal'', message = None \<rparr>)"
  by (simp add: eval_defs)

section \<open>Properties of the transit status orchestration\<close>

lemmas path_defs = fetchTransitStatus_def isPathRelevant_def NJ_KEYWORDS_def toLowerCase_def
  js_includes_def or_empty_def fetchMtaAlertsJson_def getDefaultTransitStatus_def sublist_code

text \<open>
  Claim C6, amended: the PATH request is made exactly when the lower-cased text of origin
  and destination contains a New Jersey keyword, and then \<^verbatim>\<open>path\<close> is non-null; when
  the alert processing completes without throwing, \<^verbatim>\<open>path\<close> is \<^verbatim>\<open>null\<close> exactly when
  no keyword matches; when it throws, the status returned is the default one.
\<close>

theorem path_fetch_gated_by_keywords:
  "(PathRequest \<in> set (fst (fetchTransitStatus routeIds origin destination mtaReply pathReply))
      \<longleftrightarrow> isPathRelevant origin destination)
   \<and> (isPathRelevant origin destination \<longrightarrow>
        path (snd (fetchTransitStatus routeIds origin destination mtaReply pathReply)) \<noteq> None)
   \<and> (\<not> isl (processMtaJson (fetchMtaAlertsJson mtaReply) routeIds) \<longrightarrow>
        (path (snd (fetchTransitStatus routeIds origin destination mtaReply pathReply)) = None
           \<longleftrightarrow> \<not> isPathRelevant origin destination))
   \<and> (isl (processMtaJson (fetchMtaAlertsJson mtaReply) routeIds) \<longrightarrow>
        snd (fetchTransitStatus routeIds origin destination mtaReply pathReply)
          = getDefaultTransitStatus)"
  by (cases "processMtaJson (fetchMtaAlertsJson mtaReply) routeIds")
     (auto simp: fetchTransitStatus_def Let_def getDefaultTransitStatus_def)

theorem path_fetch_gated_by_keywords_witness:
  "PathRequest \<in> set (fst (fetchTransitStatus [] (Some ''Hoboken, NJ'') (Some ''Manhattan'')
        (Body (JObj [])) \<lparr> status = ''normal'', message = None \<rparr>))
   \<and> path (snd (fetchTransitStatus [] (Some ''Hoboken, NJ'') (Some ''Manhattan'')
        (Body (JObj [])) \<lparr> status = ''normal'', message = None \<rparr>)) \<noteq> None
   \<and> PathRequest \<notin> set (fst (fetchTransitStatus [] (Some ''Brooklyn'') (Some ''Queens'')
        (Body (JObj [])) \<lparr> status = ''normal'', message = None \<rparr>))
   \<and> path (snd (fetchTransitStatus [] (Some ''Brooklyn'') (Some ''Queens'')
        (Body (JObj [])) \<lparr> status = ''normal'', message = None \<rparr>)) = None"
proof -
  have h: "isPathRelevant (Some ''Hoboken, NJ'') (Some ''Manhattan'')"
    by (simp add: path_defs)
  have b: "\<not> isPathRelevant (Some ''Brooklyn'') (Some ''Queens'')"
    by (simp add: path_defs)
  have ok: "\<not> isl (processMtaJson (fetchMtaAlertsJson (Body (JObj []))) [])"
    by (simp add: fetchMtaAlertsJson_def processMtaJson_def)
  from h b ok
    path_fetch_gated_by_keywords [of "[]" "Some ''Hoboken, NJ''" "Some ''Manhattan''" "Body (JObj [])"
      "\<lparr> status = ''normal'', message = None \<rparr>"]
    path_fetch_gated_by_keywords [of "[]" "Some ''Brooklyn''" "Some ''Queens''" "Body (JObj [])"
      "\<lparr> status = ''normal'', message = None \<rparr>"]
  show ?thesis by blast
qed

text \<open>
  Claim C6, as stated, makes \<^verbatim>\<open>path\<close> null whenever no keyword matches. When
  \<^verbatim>\<open>processMtaJson\<close> throws (here an effect that cannot be converted to a property key),
  the \<^verbatim>\<open>catch\<close> of \<^verbatim>\<open>fetchTransitStatus\<close> returns the default status, whose \<^verbatim>\<open>path\<close>
  is the normal PATH status, although no keyword matched and no PATH request was made.
\<close>

theorem default_status_has_path_without_keyword:
  "\<not> isPathRelevant (Some ''Brooklyn'') (Some ''Queens'')
   \<and> fetchTransitStatus [] (Some ''Brooklyn'') (Some ''Queens'')
        (Body (JObj [(''entity'', JArr [JObj [(''alert'',
            JObj [(''effect'', JObj [(''toString'', JNum ''1'')])])]])]))
        \<lparr> status = ''delays'', message = Some (JStr ''Delays on PATH'') \<rparr>
     = ([MtaAlertsRequest],
        \<lparr> path = Some \<lparr> status = ''normal'', message = None \<rparr>, severity = Sev ''none'' \<rparr>)"
  by (simp add: path_defs eval_defs)

section \<open>Properties of the route normalizer\<close>

lemmas travel_defs = fetchTravelData_def getDirections_def geocodeDestination_def or_empty_def
  isFerryRoute_def steps_of_def FERRY_KEYWORDS_def toLowerCase_def js_includes_def sublist_code
  ferryOnlyTravelData_def getStormMultiplier_def table_get_def multipliers_def
  object_prototype_keys_def getDistanceCategory_def blank_description_def no_lines_def

text \<open>
  A step whose mode is \<^verbatim>\<open>ferry\<close>, or whose instruction contains one of the four
  keywords, makes its route a ferry route (the source compares in lower case, so other
  spellings count as well).
\<close>

lemma toLowerCase_FERRY_KEYWORDS:
  "kw \<in> set FERRY_KEYWORDS \<Longrightarrow> toLowerCase kw = kw"
  by (auto simp: FERRY_KEYWORDS_def toLowerCase_def)

lemma js_includes_toLowerCase:
  "js_includes i kw \<Longrightarrow> js_includes (toLowerCase i) (toLowerCase kw)"
  unfolding js_includes_def toLowerCase_def by (rule map_mono_sublist)

lemma water_step_makes_ferry_route:
  assumes "s \<in> set steps"
    and "mode s = Some ''ferry'' \<or>
         (\<exists>i kw. maneuver_instruction s = Some i \<and> kw \<in> set FERRY_KEYWORDS \<and> js_includes i kw)"
  shows "isFerryRoute steps"
proof -
  from assms(2) have
    "(case mode s of None \<Rightarrow> [] | Some x \<Rightarrow> toLowerCase x) = ''ferry'' \<or>
     list_ex (\<lambda>kw. js_includes (case maneuver_instruction s of None \<Rightarrow> [] | Some i \<Rightarrow> toLowerCase i) kw)
       FERRY_KEYWORDS"
  proof
    assume "mode s = Some ''ferry''"
    then show ?thesis by (simp add: toLowerCase_def)
  next
    assume "\<exists>i kw. maneuver_instruction s = Some i \<and> kw \<in> set FERRY_KEYWORDS \<and> js_includes i kw"
    then obtain i kw where i: "maneuver_instruction s = Some i" and kw: "kw \<in> set FERRY_KEYWORDS"
      and inc: "js_includes i kw" by blast
    from js_includes_toLowerCase [OF inc] toLowerCase_FERRY_KEYWORDS [OF kw]
    have "js_includes (toLowerCase i) kw" by simp
    with i kw show ?thesis by (auto simp: list_ex_iff)
  qed
  with assms(1) show ?thesis
    by (auto simp: isFerryRoute_def Let_def list_ex_iff)
qed

lemma getDirections_all_ferry:
  assumes "rs \<noteq> []" and "list_all (\<lambda>r. isFerryRoute (steps_of r)) rs"
  shows "getDirections (Body (Some rs)) = Some FerryOnly"
proof -
  from assms(2) have "filter (\<lambda>x. \<not> isFerryRoute (steps_of x)) rs = []"
    by (simp add: list_all_iff filter_empty_conv)
  with assms(1) show ?thesis by (simp add: getDirections_def)
qed

text \<open>
  Claim C5: if every route alternative of the directions response contains a
  water-transport step, \<^verbatim>\<open>fetchTravelData\<close> returns exactly the ferry-only shape, not
  \<^verbatim>\<open>null\<close>. The hypotheses say that there is such a response: the token is configured,
  the destination coordinates are known (given, or geocoded), the request is answered and
  the answer lists route alternatives.
\<close>

theorem all_ferry_alternatives_give_ferry_only_shape:
  assumes "or_empty (mapboxKey env) \<noteq> []"
    and "destCoordsHint \<noteq> None \<or> geocodeDestination (geocodeReply env) \<noteq> None"
    and "directionsReply env = Body (Some rs)"
    and "rs \<noteq> []"
    and "list_all (\<lambda>r. isFerryRoute (steps_of r)) rs"
  shows "fetchTravelData describeRoute extractLines env weatherSeverity destCoordsHint
    = Some \<lparr> baseline_minutes = None, storm_minutes = None, distance_miles = None,
             distance_category = ''unknown'', best_route = None, ferry_only_route = True,
             relevantLines = [], route_steps = [] \<rparr>"
  using assms(1,2,3) getDirections_all_ferry [OF assms(4,5)]
  by (auto simp: fetchTravelData_def ferryOnlyTravelData_def split: option.splits)

theorem all_ferry_alternatives_give_ferry_only_shape_witness:
  "fetchTravelData blank_description no_lines
     \<lparr> mapboxKey = Some ''pk.token'', geocodeReply = Unreachable,
       directionsReply = Body (Some
         [\<lparr> duration = Num 1800, distance = Num 4000,
            legs0_steps = Some [\<lparr> maneuver_instruction = Some ''Walk to the pier'',
                                  maneuver_type = Some ''depart'', mode = Some ''walking'',
                                  name = Some ''Pier 11'', step_duration = Some (Num 300) \<rparr>,
                                \<lparr> maneuver_instruction = Some ''Cross the river'',
                                  maneuver_type = Some ''turn'', mode = Some ''ferry'',
                                  name = None, step_duration = Some (Num 1500) \<rparr>] \<rparr>,
          \<lparr> duration = Num 2400, distance = Num 5000,
            legs0_steps = Some [\<lparr> maneuver_instruction = Some ''Take the Water Taxi to Red Hook'',
                                  maneuver_type = Some ''depart'', mode = Some ''walking'',
                                  name = None, step_duration = None \<rparr>] \<rparr>]) \<rparr>
     ''moderate'' (Some \<lparr> lat = Num 40, lng = Num (- 74) \<rparr>)
   = Some \<lparr> baseline_minutes = None, storm_minutes = None, distance_miles = None,
            distance_category = ''unknown'', best_route = None, ferry_only_route = True,
            relevantLines = [], route_steps = [] \<rparr>"
proof -
  let ?rs = "[\<lparr> duration = Num 1800, distance = Num 4000,
            legs0_steps = Some [\<lparr> maneuver_instruction = Some ''Walk to the pier'',
                                  maneuver_type = Some ''depart'', mode = Some ''walking'',
                                  name = Some ''Pier 11'', step_duration = Some (Num 300) \<rparr>,
                                \<lparr> maneuver_instruction = Some ''Cross the river'',
                                  maneuver_type = Some ''turn'', mode = Some ''ferry'',
                                  name = None, step_duration = Some (Num 1500) \<rparr>] \<rparr>,
          \<lparr> duration = Num 2400, distance = Num 5000,
            legs0_steps = Some [\<lparr> maneuver_instruction = Some ''Take the Water Taxi to Red Hook'',
                                  maneuver_type = Some ''depart'', mode = Some ''walking'',
                                  name = None, step_duration = None \<rparr>] \<rparr>]"
  have ferry: "list_all (\<lambda>r. isFerryRoute (steps_of r)) ?rs"
    by (simp add: isFerryRoute_def steps_of_def FERRY_KEYWORDS_def toLowerCase_def
        js_includes_def sublist_code)
  show ?thesis
    by (rule all_ferry_alternatives_give_ferry_only_shape [where rs = ?rs, OF _ _ _ _ ferry])
       (simp_all add: or_empty_def)
qed

text \<open>
  An answer that lists no route at all is the source's "No route found":
  \<^verbatim>\<open>fetchTravelData\<close> returns \<^verbatim>\<open>null\<close>.
\<close>

lemma no_route_found_gives_null:
  "fetchTravelData blank_description no_lines
     \<lparr> mapboxKey = Some ''pk.token'', geocodeReply = Unreachable,
       directionsReply = Body (Some []) \<rparr>
     ''moderate'' (Some \<lparr> lat = Num 40, lng = Num (- 74) \<rparr>)
   = None"
  by (simp add: travel_defs)

text \<open>
  The multiplier on the five keys of the table and on every other string that names no
  member inherited from \<^verbatim>\<open>Object.prototype\<close>, and \<^verbatim>\<open>storm_minutes\<close> of a route.
\<close>

lemma storm_multiplier_table:
  "getStormMultiplier ''none'' = Factor 1"
  "getStormMultiplier ''light'' = Factor (13 / 10)"
  "getStormMultiplier ''moderate'' = Factor (17 / 10)"
  "getStormMultiplier ''severe'' = Factor (22 / 10)"
  "getStormMultiplier ''extreme'' = Factor 3"
  "w \<notin> set (map fst multipliers) \<Longrightarrow> w \<notin> set object_prototype_keys \<Longrightarrow> getStormMultiplier w = Factor 1"
  by (auto simp: getStormMultiplier_def table_get_def multipliers_def map_of_eq_None_iff
      split: option.splits)

lemma storm_minutes_of_route:
  assumes "fetchTravelData describeRoute extractLines env w hint = Some d"
    and "\<not> ferry_only_route d"
  shows "\<exists>b. baseline_minutes d = Some b
           \<and> storm_minutes d = Some (Math_round (times_multiplier b (getStormMultiplier w)))"
  using assms
  by (auto simp: fetchTravelData_def ferryOnlyTravelData_def Let_def
      split: if_splits option.splits directions.splits)

lemma storm_minutes_30_severe:
  "Math_round (times_multiplier (Num 30) (getStormMultiplier ''severe'')) = Num 66"
  by (simp add: storm_multiplier_table floor_eq_iff)

text \<open>
  Claim C7: for every route that is not ferry-only, \<^verbatim>\<open>storm_minutes\<close> is the rounded
  product of \<^verbatim>\<open>baseline_minutes\<close> and the multiplier of the weather severity: 1.0 for
  \<^verbatim>\<open>none\<close>, 1.3 for \<^verbatim>\<open>light\<close>, 1.7 for \<^verbatim>\<open>moderate\<close>, 2.2 for \<^verbatim>\<open>severe\<close>, 3.0 for
  \<^verbatim>\<open>extreme\<close>, 1.0 for any other value; 30 minutes under \<^verbatim>\<open>severe\<close> give 66. The
  severity ranges over the five buckets and every other string but the twelve names of
  the members a plain object inherits, which are no weather severities and which no caller
  passes.
\<close>

theorem storm_minutes_by_severity:
  assumes "fetchTravelData describeRoute extractLines env w hint = Some d"
    and "\<not> ferry_only_route d"
    and "w \<notin> set object_prototype_keys"
  shows "\<exists>b. baseline_minutes d = Some b
           \<and> storm_minutes d =
               Some (Math_round (js_times b
                 (Num (if w = ''none'' then 1
                       else if w = ''light'' then 13 / 10
                       else if w = ''moderate'' then 17 / 10
                       else if w = ''severe'' then 22 / 10
                       else if w = ''extreme'' then 3
                       else 1))))"
proof -
  from storm_minutes_of_route [OF assms(1,2)] obtain b where
    b: "baseline_minutes d = Some b"
    and s: "storm_minutes d = Some (Math_round (times_multiplier b (getStormMultiplier w)))"
    by blast
  have "getStormMultiplier w =
          Factor (if w = ''none'' then 1
                  else if w = ''light'' then 13 / 10
                  else if w = ''moderate'' then 17 / 10
                  else if w = ''severe'' then 22 / 10
                  else if w = ''extreme'' then 3
                  else 1)"
    using assms(3) by (simp add: getStormMultiplier_def table_get_def multipliers_def)
  with b s show ?thesis by simp
qed

text \<open>A route of 1800 seconds under \<^verbatim>\<open>severe\<close>: 30 minutes become 66.\<close>

theorem storm_minutes_by_severity_witness:
  "fetchTravelData blank_description no_lines
     \<lparr> mapboxKey = Some ''pk.token'', geocodeReply = Unreachable,
       directionsReply = Body (Some [\<lparr> duration = Num 1800, distance = Num 4000,
                                       legs0_steps = Some [] \<rparr>]) \<rparr>
     ''severe'' (Some \<lparr> lat = Num 40, lng = Num (- 74) \<rparr>)
   = Some \<lparr> baseline_minutes = Some (Num 30), storm_minutes = Some (Num 66),
            distance_miles = Some (Num (25 / 10)), distance_category = ''short_transit'',
            best_route = Some [], ferry_only_route = False, relevantLines = [],
            route_steps = [] \<rparr>"
proof -
  let ?env = "\<lparr> mapboxKey = Some ''pk.token'', geocodeReply = Unreachable,
       directionsReply = Body (Some [\<lparr> duration = Num 1800, distance = Num 4000,
                                       legs0_steps = Some [] \<rparr>]) \<rparr>"
  let ?hint = "Some \<lparr> lat = Num 40, lng = Num (- 74) \<rparr>"
  obtain d where d: "fetchTravelData blank_description no_lines ?env ''severe'' ?hint = Some d"
    and rest: "baseline_minutes d = Some (Num 30)" "distance_miles d = Some (Num (25 / 10))"
      "distance_category d = ''short_transit''" "best_route d = Some []" "\<not> ferry_only_route d"
      "relevantLines d = []" "route_steps d = []"
    by (simp add: travel_defs floor_eq_iff)
  have "''severe'' \<notin> set object_prototype_keys"
    by (simp add: object_prototype_keys_def)
  from storm_minutes_by_severity [OF d rest(5) this] rest(1)
  have "storm_minutes d = Some (Num 66)" by (auto simp: floor_eq_iff)
  with rest have "d = \<lparr> baseline_minutes = Some (Num 30), storm_minutes = Some (Num 66),
            distance_miles = Some (Num (25 / 10)), distance_category = ''short_transit'',
            best_route = Some [], ferry_only_route = False, relevantLines = [],
            route_steps = [] \<rparr>" by simp
  with d show ?thesis by simp
qed

text \<open>
  Under one of the inherited names the table read finds the inherited member instead of
  falling through to 1.0, and the product is \<^verbatim>\<open>NaN\<close>.
\<close>

lemma inherited_name_as_severity_gives_NaN:
  "fetchTravelData blank_description no_lines
     \<lparr> mapboxKey = Some ''pk.token'', geocodeReply = Unreachable,
       directionsReply = Body (Some [\<lparr> duration = Num 1800, distance = Num 4000,
                                       legs0_steps = Some [] \<rparr>]) \<rparr>
     ''constructor'' (Some \<lparr> lat = Num 40, lng = Num (- 74) \<rparr>)
   = Some \<lparr> baseline_minutes = Some (Num 30), storm_minutes = Some NaN,
            distance_miles = Some (Num (25 / 10)), distance_category = ''short_transit'',
            best_route = Some [], ferry_only_route = False, relevantLines = [],
            route_steps = [] \<rparr>
   \<and> getStormMultiplier ''constructor'' = InheritedMember ''constructor''"
  by (simp add: travel_defs floor_eq_iff)

text \<open>
  Claim C8: a distance \<open>d\<close> is \<^verbatim>\<open>walkable\<close> below 0.8 miles, \<^verbatim>\<open>short_transit\<close> from 0.8
  to below 3 miles, \<^verbatim>\<open>long_transit\<close> from 3 miles on; in particular at 0.79, 0.8, 2.99 and
  3.0. (No binary floating-point number lies between 0.8 and the value of the literal
  \<^verbatim>\<open>0.8\<close>, so comparing exact values decides the source's comparison.)
\<close>

theorem distance_buckets:
  "getDistanceCategory (Num d) =
     (if d < 8 / 10 then ''walkable'' else if d < 3 then ''short_transit'' else ''long_transit'')"
  by (simp add: getDistanceCategory_def)

theorem distance_buckets_witness:
  "getDistanceCategory (Num (79 / 100)) = ''walkable''
   \<and> getDistanceCategory (Num (8 / 10)) = ''short_transit''
   \<and> getDistanceCategory (Num (299 / 100)) = ''short_transit''
   \<and> getDistanceCategory (Num 3) = ''long_transit''"
  using distance_buckets [of "79 / 100"] distance_buckets [of "8 / 10"]
    distance_buckets [of "299 / 100"] distance_buckets [of 3]
  by simp

section \<open>Properties of the travel ban stub and of the walkable flag\<close>

text \<open>The parser would report a ban, were it ever called.\<close>

lemma parseTravelBanHTML_reports_suspension:
  "ban_level (parseTravelBanHTML ''<p>Subway Suspended</p>'') = ''transit_suspended''"
  by (simp add: parseTravelBanHTML_def toLowerCase_def js_includes_def sublist_code)

lemma fetchTravelBan_step:
  assumes "cache_holds_default c" and "fetchTravelBan c now now' = (ban, c', called)"
  shows "ban = getDefaultTravelBan \<and> cache_holds_default c'
     \<and> set called \<subseteq> {Invoked_getDefaultTravelBan}"
  using assms
  by (auto simp: fetchTravelBan_def cache_holds_default_def Let_def split: option.splits if_splits)

lemma fetchTravelBan_calls_default:
  assumes "cache_holds_default c"
  shows "list_all (\<lambda>(ban, called). ban = getDefaultTravelBan
            \<and> set called \<subseteq> {Invoked_getDefaultTravelBan}) (fetchTravelBan_calls c clock)"
  using assms
proof (induction clock arbitrary: c)
  case Nil
  then show ?case by simp
next
  case (Cons t clock)
  obtain now now' where t: "t = (now, now')" by (cases t)
  obtain ban c' called where f: "fetchTravelBan c now now' = (ban, c', called)"
    by (cases "fetchTravelBan c now now'")
  from fetchTravelBan_step [OF Cons.prems f] Cons.IH [of c'] t f show ?case by simp
qed

text \<open>
  Claim C9: whatever the clock readings, every call of \<^verbatim>\<open>fetchTravelBan\<close> since the
  module was loaded resolves to the no-ban object, whether it finds the cache empty, fresh
  or stale, and invokes nothing but \<^verbatim>\<open>getDefaultTravelBan\<close>: \<^verbatim>\<open>parseTravelBanHTML\<close> is
  never invoked.
\<close>

theorem fetchTravelBan_always_no_ban:
  "list_all (\<lambda>(ban, called).
       ban = \<lparr> ban_level = ''none'', plain_english = None, affects_walking = False,
               affects_subway = False, affects_rideshare = False \<rparr>
       \<and> list_all (\<lambda>f. f = Invoked_getDefaultTravelBan) called)
     (fetchTravelBan_calls initial_cache clock)"
proof -
  have "cache_holds_default initial_cache"
    by (simp add: cache_holds_default_def initial_cache_def)
  from fetchTravelBan_calls_default [OF this, of clock] show ?thesis
    by (auto simp: list_all_iff getDefaultTravelBan_def)
qed

theorem fetchTravelBan_always_no_ban_witness:
  "fetchTravelBan_calls initial_cache [(1000, 1001), (2000, 2001), (700000, 700002)]
   = [(getDefaultTravelBan, [Invoked_getDefaultTravelBan]),
      (getDefaultTravelBan, []),
      (getDefaultTravelBan, [Invoked_getDefaultTravelBan])]"
  using fetchTravelBan_always_no_ban [of "[(1000, 1001), (2000, 2001), (700000, 700002)]"]
  by (simp add: fetchTravelBan_def initial_cache_def CACHE_DURATION_MS_def getDefaultTravelBan_def)

text \<open>
  Claim C10: \<^verbatim>\<open>is_walkable\<close> is true exactly when the travel data is non-null and its
  category is \<^verbatim>\<open>walkable\<close> or its baseline minutes are a number below 20, whatever the
  category.
\<close>

theorem is_walkable_iff:
  "isWalkable travelData \<longleftrightarrow>
     (\<exists>d. travelData = Some d \<and>
        (distance_category d = ''walkable'' \<or>
         (\<exists>q. baseline_minutes d = Some (Num q) \<and> q < 20)))"
proof (cases travelData)
  case None
  then show ?thesis by (simp add: isWalkable_def)
next
  case (Some d)
  show ?thesis
  proof (cases "baseline_minutes d")
    case None
    with Some show ?thesis by (simp add: isWalkable_def)
  next
    case (Some b)
    with \<open>travelData = Some d\<close> show ?thesis
      by (cases b) (simp_all add: isWalkable_def)
  qed
qed

theorem is_walkable_iff_witness:
  "isWalkable (Some \<lparr> baseline_minutes = Some (Num 15), storm_minutes = Some (Num 26),
                      distance_miles = Some (Num (9 / 10)), distance_category = ''short_transit'',
                      best_route = Some [], ferry_only_route = False, relevantLines = [],
                      route_steps = [] \<rparr>)
   \<and> \<not> isWalkable (Some \<lparr> baseline_minutes = Some (Num 20), storm_minutes = Some (Num 34),
                      distance_miles = Some (Num (9 / 10)), distance_category = ''short_transit'',
                      best_route = Some [], ferry_only_route = False, relevantLines = [],
                      route_steps = [] \<rparr>)
   \<and> \<not> isWalkable (Some ferryOnlyTravelData)
   \<and> \<not> isWalkable None"
  using is_walkable_iff [of "Some \<lparr> baseline_minutes = Some (Num 15), storm_minutes = Some (Num 26),
                      distance_miles = Some (Num (9 / 10)), distance_category = ''short_transit'',
                      best_route = Some [], ferry_only_route = False, relevantLines = [],
                      route_steps = [] \<rparr>"]
    is_walkable_iff [of "Some \<lparr> baseline_minutes = Some (Num 20), storm_minutes = Some (Num 34),
                      distance_miles = Some (Num (9 / 10)), distance_category = ''short_transit'',
                      best_route = Some [], ferry_only_route = False, relevantLines = [],
                      route_steps = [] \<rparr>"]
    is_walkable_iff [of "Some ferryOnlyTravelData"] is_walkable_iff [of None]
  by (simp add: ferryOnlyTravelData_def)

end
